theory Spec2Isabelle
  imports
    Complex_Main
    "HOL-Library.Char_ord"
    "HOL-Library.List_Lexorder"
    "HOL-Library.Product_Lexorder"
    "HOL-Library.Multiset"
begin

section \<open>Data model\<close>

text \<open>
  The working table of \<^verbatim>\<open>app.py\<close> is a pandas DataFrame. A row is a record of the
  columns the script reads; a table is the list of its rows, in index order. A cell of
  \<^verbatim>\<open>name\<close> or \<^verbatim>\<open>cluster_name\<close> that the CSV leaves empty is read as NaN: it is
  \<open>None\<close> here. Each stage adds a column, so each stage has its own row type, an
  extension of the one before.

  Numbers: \<^verbatim>\<open>sentiment_score\<close> holds the integers of the mapping, or NaN (\<open>None\<close>) where the
  mapping has no entry. A cell of \<^verbatim>\<open>sentiment_score_avg\<close> is a 64-bit float: it is the
  rational number the float stands for, or NaN (\<open>None\<close>).
\<close>

record review =
  reviews_text :: string
  name :: "string option"
  cluster_name :: "string option"

record labeled = review +
  sentiment :: string

record scored = labeled +
  sentiment_score :: "int option"

record averaged = scored +
  sentiment_score_avg :: "rat option"

datatype error =
    ExternalError string
  | ValueError
  | IndexError

text \<open>A DataFrame object in the store is one of the tables a stage can hold.\<close>

datatype frame =
    Raw "review list"
  | Labeled "labeled list"
  | Scored "scored list"

type_synonym addr = nat
type_synonym heap = "addr \<Rightarrow> frame"

section \<open>Classifier: \<^verbatim>\<open>process_reviews\<close>\<close>

definition base_row :: "'a review_scheme \<Rightarrow> review" where
  "base_row r = \<lparr>reviews_text = reviews_text r, name = name r, cluster_name = cluster_name r\<rparr>"

definition base_rows :: "frame \<Rightarrow> review list" where
  "base_rows f =
     (case f of Raw rs \<Rightarrow> rs | Labeled rs \<Rightarrow> map base_row rs | Scored rs \<Rightarrow> map base_row rs)"

definition with_sentiment :: "review \<Rightarrow> string \<Rightarrow> labeled" where
  "with_sentiment r l =
     \<lparr>reviews_text = reviews_text r, name = name r, cluster_name = cluster_name r,
      sentiment = l\<rparr>"

text \<open>The dictionary \<^verbatim>\<open>{'positive': 2, 'neutral': 1, 'negative': 0}\<close>.\<close>

definition score_dict :: "string \<rightharpoonup> int" where
  "score_dict = map_of [(''positive'', 2), (''neutral'', 1), (''negative'', 0)]"

text \<open>\<^verbatim>\<open>Series.map(dict)\<close>: a value that is no key of the dictionary becomes NaN.\<close>

definition with_score :: "labeled \<Rightarrow> scored" where
  "with_score r =
     \<lparr>reviews_text = reviews_text r, name = name r, cluster_name = cluster_name r,
      sentiment = sentiment r, sentiment_score = score_dict (sentiment r)\<rparr>"

text \<open>
  \<^verbatim>\<open>df['sentiment'] = values\<close>: pandas raises \<^verbatim>\<open>ValueError\<close> when the number of values
  is not the number of rows.
\<close>

definition set_sentiment :: "review list \<Rightarrow> string list \<Rightarrow> error + labeled list" where
  "set_sentiment rs ls =
     (if length ls \<noteq> length rs then Inl ValueError
      else Inr (map (\<lambda>(r, l). with_sentiment r l) (zip rs ls)))"

text \<open>
  The vectorizer and the model are objects loaded from files: \<open>transform\<close> and
  \<open>predict\<close> are parameters, and each may raise. The function works on the DataFrame
  object at address \<open>a\<close> of the store and returns that same address.
\<close>

definition process_reviews ::
  "(string list \<Rightarrow> error + 'x) \<Rightarrow> ('x \<Rightarrow> error + string list) \<Rightarrow> heap \<Rightarrow> addr \<Rightarrow>
   (error + addr) \<times> heap" where
  "process_reviews transform predict h a =
     (case transform (map reviews_text (base_rows (h a))) of
        Inl e \<Rightarrow> (Inl e, h)
      | Inr X \<Rightarrow>
          (case predict X of
             Inl e \<Rightarrow> (Inl e, h)
           | Inr ls \<Rightarrow>
               (case set_sentiment (base_rows (h a)) ls of
                  Inl e \<Rightarrow> (Inl e, h)
                | Inr rs \<Rightarrow>
                    (let h1 = h(a := Labeled rs);
                         h2 = h1(a := Scored (map with_score rs))
                     in (Inr a, h2)))))"

text \<open>The table that \<^verbatim>\<open>df\<close> names after a successful call.\<close>

definition scored_rows :: "frame \<Rightarrow> scored list" where
  "scored_rows f = (case f of Scored rs \<Rightarrow> rs | _ \<Rightarrow> [])"

section \<open>Aggregator: \<^verbatim>\<open>calculate_average_scores\<close>\<close>

text \<open>
  The group-wise mean skips NaN cells; with no value left the result is NaN. The
  aggregator averages the integer scores 0, 1 and 2: their sum is exact in 64-bit floats,
  and the one division rounds the exact quotient, which is the value \<open>mean\<close> gives.
\<close>

definition mean :: "rat option list \<Rightarrow> rat option" where
  "mean xs =
     (let vs = List.map_filter id xs
      in if vs = [] then None else Some (sum_list vs / of_nat (length vs)))"

definition score_value :: "'a scored_scheme \<Rightarrow> rat option" where
  "score_value r = map_option of_int (sentiment_score r)"

text \<open>
  The group key of a row under \<^verbatim>\<open>groupby(['cluster_name', 'name'])\<close>. With the default
  \<^verbatim>\<open>dropna=True\<close> a row with NaN in a key column belongs to no group.
\<close>

definition row_key :: "'a review_scheme \<Rightarrow> (string \<times> string) option" where
  "row_key r =
     (case cluster_name r of
        None \<Rightarrow> None
      | Some c \<Rightarrow> (case name r of None \<Rightarrow> None | Some n \<Rightarrow> Some (c, n)))"

definition group_rows :: "'a review_scheme list \<Rightarrow> string \<times> string \<Rightarrow> 'a review_scheme list" where
  "group_rows df k = filter (\<lambda>r. row_key r = Some k) df"

text \<open>
  \<^verbatim>\<open>df.groupby(['cluster_name', 'name'])['sentiment_score'].mean().reset_index()\<close>: one
  row per group, the groups in ascending order of their keys (the default
  \<^verbatim>\<open>sort=True\<close>).
\<close>

definition product_scores :: "'a scored_scheme list \<Rightarrow> ((string \<times> string) \<times> rat option) list" where
  "product_scores df =
     map (\<lambda>k. (k, mean (map score_value (group_rows df k))))
       (sort (remdups (List.map_filter row_key df)))"

definition with_avg :: "scored \<Rightarrow> rat option \<Rightarrow> averaged" where
  "with_avg r m =
     \<lparr>reviews_text = reviews_text r, name = name r, cluster_name = cluster_name r,
      sentiment = sentiment r, sentiment_score = sentiment_score r,
      sentiment_score_avg = m\<rparr>"

text \<open>
  \<^verbatim>\<open>df.merge(product_scores, on=['cluster_name', 'name'], suffixes=('', '_avg'))\<close>: the
  default \<^verbatim>\<open>how='inner'\<close>. Every left row is paired with every right row of the same
  key, in the order of the left rows; a left row without a partner is not in the result.
  The right column \<^verbatim>\<open>sentiment_score\<close> clashes with the left one and takes the
  suffix \<^verbatim>\<open>_avg\<close>.
\<close>

definition merge :: "scored list \<Rightarrow> ((string \<times> string) \<times> rat option) list \<Rightarrow> averaged list" where
  "merge df ps =
     concat (map (\<lambda>r. map (\<lambda>(k, m). with_avg r m)
                          (filter (\<lambda>(k, m). row_key r = Some k) ps)) df)"

definition calculate_average_scores :: "scored list \<Rightarrow> averaged list" where
  "calculate_average_scores df = merge df (product_scores df)"

text \<open>
  What the merge makes of one row: nothing when a key cell is NaN, else the row with the
  mean of its group. (Lemma \<open>calculate_average_scores_rows\<close> shows that the merge is
  this, row by row.)
\<close>

definition avg_row :: "scored list \<Rightarrow> scored \<Rightarrow> averaged list" where
  "avg_row df r =
     (case row_key r of
        None \<Rightarrow> []
      | Some k \<Rightarrow> [with_avg r (mean (map score_value (group_rows df k)))])"

definition scored_row :: "'a scored_scheme \<Rightarrow> scored" where
  "scored_row r =
     \<lparr>reviews_text = reviews_text r, name = name r, cluster_name = cluster_name r,
      sentiment = sentiment r, sentiment_score = sentiment_score r\<rparr>"

section \<open>Reporter: the loop over the categories\<close>

text \<open>\<^verbatim>\<open>Series.unique()\<close>: the distinct values in order of first appearance.\<close>

fun unique :: "'a list \<Rightarrow> 'a list" where
  "unique [] = []"
| "unique (x # xs) = x # unique (filter (\<lambda>y. y \<noteq> x) xs)"

text \<open>
  \<^verbatim>\<open>df[df['cluster_name'] == category]\<close>: a comparison with NaN is false in every row.
\<close>

definition category_df :: "'a review_scheme list \<Rightarrow> string option \<Rightarrow> 'a review_scheme list" where
  "category_df df category =
     (case category of
        None \<Rightarrow> []
      | Some c \<Rightarrow> filter (\<lambda>r. cluster_name r = Some c) df)"

text \<open>
  \<^verbatim>\<open>category_df.groupby('name')['sentiment_score_avg'].mean().reset_index()\<close>: one row
  per product name, in ascending order of the names.

  Here the mean is taken over a column of 64-bit floats. What pandas returns for it
  depends on the order in which it adds the floats and on the rounding of every addition,
  and that code is not part of the repository: the mean of a float column is the
  parameter \<open>avg\<close>, any function from the cells of a column to a float or NaN. Nothing
  is assumed of it; in particular the average of several copies of one float need not be
  that float.
\<close>

definition product_sentiments ::
  "(rat option list \<Rightarrow> rat option) \<Rightarrow> 'a averaged_scheme list \<Rightarrow> (string \<times> rat option) list" where
  "product_sentiments avg cdf =
     map (\<lambda>n. (n, avg (map sentiment_score_avg (filter (\<lambda>r. name r = Some n) cdf))))
       (sort (remdups (List.map_filter name cdf)))"

text \<open>
  The order of \<^verbatim>\<open>sort_values\<close> on the mean, with a stable sort: ascending or
  descending on the values, rows of equal value in their order in the frame, rows with
  NaN after all others (\<^verbatim>\<open>na_position='last'\<close>).
\<close>

definition valued :: "('a \<times> rat option) list \<Rightarrow> ('a \<times> rat) list" where
  "valued ps = List.map_filter (\<lambda>(p, m). map_option (Pair p) m) ps"

definition unvalued :: "('a \<times> rat option) list \<Rightarrow> ('a \<times> rat option) list" where
  "unvalued ps = filter (\<lambda>(p, m). m = None) ps"

definition sort_values :: "bool \<Rightarrow> ('a \<times> rat option) list \<Rightarrow> ('a \<times> rat option) list" where
  "sort_values ascending ps =
     map (\<lambda>(p, v). (p, Some v))
       (sort_key (\<lambda>(p, v). if ascending then v else - v) (valued ps))
     @ unvalued ps"

text \<open>
  \<^verbatim>\<open>DataFrame.nlargest(n, column)\<close> and \<^verbatim>\<open>nsmallest\<close> with the default
  \<^verbatim>\<open>keep='first'\<close>: the first \<open>n\<close> rows in descending (ascending) order of the
  column, where among rows of equal value the one that comes first in the frame is taken
  first, and rows with NaN come after all others.
\<close>

definition nlargest :: "nat \<Rightarrow> ('a \<times> rat option) list \<Rightarrow> ('a \<times> rat option) list" where
  "nlargest n ps = take n (sort_values False ps)"

definition nsmallest :: "nat \<Rightarrow> ('a \<times> rat option) list \<Rightarrow> ('a \<times> rat option) list" where
  "nsmallest n ps = take n (sort_values True ps)"

text \<open>
  The order a ranking has to respect, for stating what a selection returns: row \<open>a\<close> may
  stand before row \<open>b\<close> when \<open>b\<close> has no mean, or both have one and the mean of \<open>a\<close> is
  not above (ascending) or not below (descending) that of \<open>b\<close>.
\<close>

definition ranks_before :: "bool \<Rightarrow> 'a \<times> rat option \<Rightarrow> 'a \<times> rat option \<Rightarrow> bool" where
  "ranks_before ascending a b =
     (case snd b of
        None \<Rightarrow> True
      | Some y \<Rightarrow>
          (case snd a of
             None \<Rightarrow> False
           | Some x \<Rightarrow> if ascending then x \<le> y else y \<le> x))"

definition top_products :: "(string \<times> rat option) list \<Rightarrow> string list" where
  "top_products ps = map fst (nlargest 3 ps)"

text \<open>\<^verbatim>\<open>.iloc[0]\<close> raises \<^verbatim>\<open>IndexError\<close> on an empty column.\<close>

definition bottom_product :: "(string \<times> rat option) list \<Rightarrow> error + string" where
  "bottom_product ps =
     (case map fst (nsmallest 1 ps) of [] \<Rightarrow> Inl IndexError | p # _ \<Rightarrow> Inr p)"

text \<open>
  \<^verbatim>\<open>category_df[category_df['name'].isin(top_products)]['reviews.text'].tolist()\<close>
\<close>

definition isin :: "string option \<Rightarrow> string list \<Rightarrow> bool" where
  "isin x vs = (case x of None \<Rightarrow> False | Some n \<Rightarrow> n \<in> set vs)"

definition top_reviews :: "'a review_scheme list \<Rightarrow> string list \<Rightarrow> string list" where
  "top_reviews cdf tops = map reviews_text (filter (\<lambda>r. isin (name r) tops) cdf)"

section \<open>Article generation and the run\<close>

text \<open>\<^verbatim>\<open>sep.join(xs)\<close>\<close>

fun join :: "string \<Rightarrow> string list \<Rightarrow> string" where
  "join sep [] = []"
| "join sep [x] = x"
| "join sep (x # y # ys) = x @ sep @ join sep (y # ys)"

text \<open>
  \<^verbatim>\<open>str.strip()\<close>. A string is the list of the bytes of its UTF-8 encoding, so a
  character is one to three bytes here. The whitespace characters of Python are U+0009 to
  U+000D, U+001C to U+0020, U+0085, U+00A0, U+1680, U+2000 to U+200A, U+2028, U+2029,
  U+202F, U+205F and U+3000.
\<close>

definition whitespace :: "string list" where
  "whitespace =
     [[CHR 0x09], [CHR 0x0A], [CHR 0x0B], [CHR 0x0C], [CHR 0x0D],
      [CHR 0x1C], [CHR 0x1D], [CHR 0x1E], [CHR 0x1F], [CHR 0x20],
      [CHR 0xC2, CHR 0x85], [CHR 0xC2, CHR 0xA0], [CHR 0xE1, CHR 0x9A, CHR 0x80],
      [CHR 0xE2, CHR 0x80, CHR 0x80], [CHR 0xE2, CHR 0x80, CHR 0x81],
      [CHR 0xE2, CHR 0x80, CHR 0x82], [CHR 0xE2, CHR 0x80, CHR 0x83],
      [CHR 0xE2, CHR 0x80, CHR 0x84], [CHR 0xE2, CHR 0x80, CHR 0x85],
      [CHR 0xE2, CHR 0x80, CHR 0x86], [CHR 0xE2, CHR 0x80, CHR 0x87],
      [CHR 0xE2, CHR 0x80, CHR 0x88], [CHR 0xE2, CHR 0x80, CHR 0x89],
      [CHR 0xE2, CHR 0x80, CHR 0x8A], [CHR 0xE2, CHR 0x80, CHR 0xA8],
      [CHR 0xE2, CHR 0x80, CHR 0xA9], [CHR 0xE2, CHR 0x80, CHR 0xAF],
      [CHR 0xE2, CHR 0x81, CHR 0x9F], [CHR 0xE3, CHR 0x80, CHR 0x80]]"

text \<open>
  Stripping removes, as long as there is one, a whitespace character the string starts
  with; at the right end the same is done on the reversed string.
\<close>

definition starts_with :: "string \<Rightarrow> string \<Rightarrow> bool" where
  "starts_with p s = (p \<noteq> [] \<and> take (length p) s = p)"

function lstrip_by :: "string list \<Rightarrow> string \<Rightarrow> string" where
  "lstrip_by ps s =
     (case find (\<lambda>p. starts_with p s) ps of
        None \<Rightarrow> s
      | Some p \<Rightarrow> lstrip_by ps (drop (length p) s))"
  by pat_completeness auto
termination
proof (relation "measure (\<lambda>(ps, s). length s)")
  show "wf (measure (\<lambda>(ps, s). length s))"
    by simp
next
  fix ps :: "string list" and s p :: string
  assume "find (\<lambda>p. starts_with p s) ps = Some p"
  then have "starts_with p s"
    by (auto simp: find_Some_iff)
  then have "p \<noteq> []" and "take (length p) s = p"
    by (simp_all add: starts_with_def)
  then have "s \<noteq> []"
    by auto
  with \<open>p \<noteq> []\<close> show "((ps, drop (length p) s), (ps, s)) \<in> measure (\<lambda>(ps, s). length s)"
    by simp
qed

declare lstrip_by.simps [simp del]

definition strip :: "string \<Rightarrow> string" where
  "strip s = rev (lstrip_by (map rev whitespace) (rev (lstrip_by whitespace s)))"

definition nl :: string where
  "nl = [CHR 0x0A]"

definition quote :: string where
  "quote = [CHR 0x27]"

text \<open>The f-string of \<^verbatim>\<open>generate_article\<close>, line by line.\<close>

definition prompt_text :: "string \<Rightarrow> string list \<Rightarrow> string \<Rightarrow> string \<Rightarrow> string" where
  "prompt_text category_name tops bottom reviews =
     nl @ ''    Write a blog post titled '' @ quote @ ''Top Products in '' @ category_name
        @ quote @ ''.'' @ nl
     @ ''    Include the following:'' @ nl
     @ ''    - Introduction to the category.'' @ nl
     @ ''    - Top 3 products: '' @ join '', '' tops @ ''.'' @ nl
     @ ''      - Key differences between them.'' @ nl
     @ ''      - When a consumer should choose one over another.'' @ nl
     @ ''    - Common complaints or issues for each of these top products.'' @ nl
     @ ''    - The worst product in the category: '' @ bottom @ ''.'' @ nl
     @ ''      - Reasons why consumers should avoid it.'' @ nl
     @ ''    - Conclusion with a recommendation.'' @ nl
     @ ''    '' @ nl
     @ ''    Use a friendly and informative tone, similar to articles on The Verge or Wirecutter.''
     @ nl
     @ ''    Incorporate insights from the following reviews:'' @ nl
     @ ''    '' @ reviews @ nl
     @ ''    '' @ nl
     @ ''    Keep the article concise and engaging.'' @ nl
     @ ''    ''"

record request =
  req_model :: string
  req_prompt :: string
  req_max_tokens :: nat
  req_temperature :: rat

text \<open>
  What the page shows, in order: \<^verbatim>\<open>st.subheader\<close>, \<^verbatim>\<open>st.write\<close>,
  \<^verbatim>\<open>st.markdown\<close>, and \<^verbatim>\<open>st.error\<close> with the exception whose message it prints.
\<close>

datatype ui =
    Subheader string
  | Write string
  | Markdown string
  | StError error

text \<open>
  The text-generation service is outside the program: \<open>create\<close> is a parameter that
  takes the state of the service and a request, and gives the text of the first choice
  or raises, with the next state of the service. The world of a run is the page, the list
  of the requests sent so far and the state of the service.
\<close>

record 's world =
  display :: "ui list"
  requests :: "request list"
  service :: 's

text \<open>
  The arguments of \<^verbatim>\<open>openai.Completion.create\<close> in \<^verbatim>\<open>generate_article\<close>.
\<close>

definition article_request :: "string \<Rightarrow> string list \<Rightarrow> string \<Rightarrow> string \<Rightarrow> request" where
  "article_request category_name tops bottom reviews =
     \<lparr>req_model = ''text-davinci-003'',
      req_prompt = prompt_text category_name tops bottom reviews,
      req_max_tokens = 1000, req_temperature = 8 / 10\<rparr>"

definition generate_article ::
  "('s \<Rightarrow> request \<Rightarrow> (error + string) \<times> 's) \<Rightarrow> 's world \<Rightarrow>
   string \<Rightarrow> string list \<Rightarrow> string \<Rightarrow> string \<Rightarrow> (error + string) \<times> 's world" where
  "generate_article create w category_name tops bottom reviews =
     (let req = article_request category_name tops bottom reviews;
          (response, s) = create (service w) req;
          w' = w\<lparr>requests := requests w @ [req], service := s\<rparr>
      in case response of
           Inl e \<Rightarrow> (Inl e, w')
         | Inr text \<Rightarrow> (Inr (strip text), w'))"

definition show_on :: "'s world \<Rightarrow> ui \<Rightarrow> 's world" where
  "show_on w u = w\<lparr>display := display w @ [u]\<rparr>"

text \<open>How an f-string prints a category: NaN prints as \<^verbatim>\<open>nan\<close>.\<close>

definition str_category :: "string option \<Rightarrow> string" where
  "str_category category = (case category of None \<Rightarrow> ''nan'' | Some c \<Rightarrow> c)"

text \<open>
  The body of \<^verbatim>\<open>for category in df['cluster_name'].unique()\<close>, one category per
  step. An exception leaves the loop at once.
\<close>

fun category_loop ::
  "(rat option list \<Rightarrow> rat option) \<Rightarrow> ('s \<Rightarrow> request \<Rightarrow> (error + string) \<times> 's) \<Rightarrow>
   averaged list \<Rightarrow> string option list \<Rightarrow> 's world \<Rightarrow> (error + unit) \<times> 's world" where
  "category_loop avg create df [] w = (Inr (), w)"
| "category_loop avg create df (category # rest) w =
     (let w1 = show_on w (Subheader (''Category: '' @ str_category category));
          cdf = category_df df category;
          ps = product_sentiments avg cdf;
          tops = top_products ps
      in case bottom_product ps of
           Inl e \<Rightarrow> (Inl e, w1)
         | Inr bottom \<Rightarrow>
             (case generate_article create w1 (str_category category) tops bottom
                     (join '' '' (take 5 (top_reviews cdf tops))) of
                (Inl e, w2) \<Rightarrow> (Inl e, w2)
              | (Inr article, w2) \<Rightarrow>
                  category_loop avg create df rest
                    (show_on (show_on w2 (Write article)) (Markdown ''---''))))"

text \<open>
  The \<^verbatim>\<open>try\<close> block of the button handler after the files are loaded, and its
  \<^verbatim>\<open>except Exception\<close> clause, which shows the error on the page.
\<close>

definition pipeline ::
  "(string list \<Rightarrow> error + 'x) \<Rightarrow> ('x \<Rightarrow> error + string list) \<Rightarrow>
   (rat option list \<Rightarrow> rat option) \<Rightarrow> ('s \<Rightarrow> request \<Rightarrow> (error + string) \<times> 's) \<Rightarrow>
   review list \<Rightarrow> 's world \<Rightarrow> (error + unit) \<times> 's world" where
  "pipeline transform predict avg create rows w =
     (case process_reviews transform predict (\<lambda>a. Raw rows) 0 of
        (Inl e, h) \<Rightarrow> (Inl e, w)
      | (Inr a, h) \<Rightarrow>
          (let df = calculate_average_scores (scored_rows (h a))
           in category_loop avg create df (unique (map cluster_name df)) w))"

definition run ::
  "(string list \<Rightarrow> error + 'x) \<Rightarrow> ('x \<Rightarrow> error + string list) \<Rightarrow>
   (rat option list \<Rightarrow> rat option) \<Rightarrow> ('s \<Rightarrow> request \<Rightarrow> (error + string) \<times> 's) \<Rightarrow>
   review list \<Rightarrow> 's world \<Rightarrow> 's world" where
  "run transform predict avg create rows w =
     (case pipeline transform predict avg create rows w of
        (Inl e, w') \<Rightarrow> show_on w' (StError e)
      | (Inr u, w') \<Rightarrow> w')"

section \<open>Example inputs\<close>

text \<open>
  In the examples the mean of a float column is \<open>mean\<close>: every value averaged there
  is a small multiple of 1/2, for which the additions and the division are exact in 64-bit
  floats in any order.
\<close>

text \<open>
  A vectorizer that passes the texts on, and a model that knows three words and labels
  every other text \<^verbatim>\<open>mixed\<close>, a label outside the dictionary.
\<close>

definition demo_transform :: "string list \<Rightarrow> error + string list" where
  "demo_transform texts = Inr texts"

definition demo_label :: "string \<Rightarrow> string" where
  "demo_label t =
     (if t = ''good'' then ''positive''
      else if t = ''ok'' then ''neutral''
      else if t = ''bad'' then ''negative''
      else ''mixed'')"

definition demo_predict :: "string list \<Rightarrow> error + string list" where
  "demo_predict X = Inr (map demo_label X)"

definition demo_reviews :: "review list" where
  "demo_reviews =
     [\<lparr>reviews_text = ''good'', name = Some ''A'', cluster_name = Some ''tablets''\<rparr>,
      \<lparr>reviews_text = ''so-so'', name = Some ''B'', cluster_name = Some ''tablets''\<rparr>]"

definition demo_heap :: heap where
  "demo_heap a = Raw demo_reviews"

text \<open>
  Two scored tables of one category: in the first the second review has no product name,
  in the second every key cell is filled.
\<close>

definition demo_scored :: "scored list" where
  "demo_scored =
     [\<lparr>reviews_text = ''good'', name = Some ''A'', cluster_name = Some ''tablets'',
       sentiment = ''positive'', sentiment_score = Some 2\<rparr>,
      \<lparr>reviews_text = ''bad'', name = None, cluster_name = Some ''tablets'',
       sentiment = ''negative'', sentiment_score = Some 0\<rparr>,
      \<lparr>reviews_text = ''ok'', name = Some ''A'', cluster_name = Some ''tablets'',
       sentiment = ''neutral'', sentiment_score = Some 1\<rparr>]"

definition demo_keyed :: "scored list" where
  "demo_keyed =
     [\<lparr>reviews_text = ''good'', name = Some ''A'', cluster_name = Some ''tablets'',
       sentiment = ''positive'', sentiment_score = Some 2\<rparr>,
      \<lparr>reviews_text = ''bad'', name = Some ''B'', cluster_name = Some ''tablets'',
       sentiment = ''negative'', sentiment_score = Some 0\<rparr>,
      \<lparr>reviews_text = ''ok'', name = Some ''A'', cluster_name = Some ''tablets'',
       sentiment = ''neutral'', sentiment_score = Some 1\<rparr>]"

text \<open>
  A category of four products with eight reviews, whose means are A = 2, B = 3/2, C = 1
  and D = 1/2.
\<close>

definition demo_four :: "scored list" where
  "demo_four =
     [\<lparr>reviews_text = ''d1'', name = Some ''D'', cluster_name = Some ''tablets'',
       sentiment = ''negative'', sentiment_score = Some 0\<rparr>,
      \<lparr>reviews_text = ''b1'', name = Some ''B'', cluster_name = Some ''tablets'',
       sentiment = ''positive'', sentiment_score = Some 2\<rparr>,
      \<lparr>reviews_text = ''a1'', name = Some ''A'', cluster_name = Some ''tablets'',
       sentiment = ''positive'', sentiment_score = Some 2\<rparr>,
      \<lparr>reviews_text = ''c1'', name = Some ''C'', cluster_name = Some ''tablets'',
       sentiment = ''neutral'', sentiment_score = Some 1\<rparr>,
      \<lparr>reviews_text = ''b2'', name = Some ''B'', cluster_name = Some ''tablets'',
       sentiment = ''neutral'', sentiment_score = Some 1\<rparr>,
      \<lparr>reviews_text = ''d2'', name = Some ''D'', cluster_name = Some ''tablets'',
       sentiment = ''neutral'', sentiment_score = Some 1\<rparr>,
      \<lparr>reviews_text = ''a2'', name = Some ''A'', cluster_name = Some ''tablets'',
       sentiment = ''positive'', sentiment_score = Some 2\<rparr>,
      \<lparr>reviews_text = ''c2'', name = Some ''C'', cluster_name = Some ''tablets'',
       sentiment = ''neutral'', sentiment_score = Some 1\<rparr>]"

text \<open>
  An averaged table of one category in which four products have the same mean.
\<close>

definition demo_ties :: "averaged list" where
  "demo_ties =
     [\<lparr>reviews_text = ''r1'', name = Some ''D'', cluster_name = Some ''tablets'',
       sentiment = ''neutral'', sentiment_score = Some 1, sentiment_score_avg = Some 1\<rparr>,
      \<lparr>reviews_text = ''r2'', name = Some ''C'', cluster_name = Some ''tablets'',
       sentiment = ''neutral'', sentiment_score = Some 1, sentiment_score_avg = Some 1\<rparr>,
      \<lparr>reviews_text = ''r3'', name = Some ''B'', cluster_name = Some ''tablets'',
       sentiment = ''neutral'', sentiment_score = Some 1, sentiment_score_avg = Some 1\<rparr>,
      \<lparr>reviews_text = ''r4'', name = Some ''A'', cluster_name = Some ''tablets'',
       sentiment = ''neutral'', sentiment_score = Some 1, sentiment_score_avg = Some 1\<rparr>]"

text \<open>
  A run over three categories with one review each, against a service that answers the
  first request and refuses every later one; and the table the classifier makes of the
  three reviews.
\<close>

definition demo_three :: "review list" where
  "demo_three =
     [\<lparr>reviews_text = ''good'', name = Some ''A'', cluster_name = Some ''tablets''\<rparr>,
      \<lparr>reviews_text = ''bad'', name = Some ''B'', cluster_name = Some ''phones''\<rparr>,
      \<lparr>reviews_text = ''ok'', name = Some ''C'', cluster_name = Some ''laptops''\<rparr>]"

definition demo_create :: "nat \<Rightarrow> request \<Rightarrow> (error + string) \<times> nat" where
  "demo_create n req =
     (if n = 0 then Inr '' An article. '' else Inl (ExternalError ''rate limit''), Suc n)"

definition demo_world :: "nat world" where
  "demo_world = \<lparr>display = [], requests = [], service = 0\<rparr>"

definition demo_three_scored :: "scored list" where
  "demo_three_scored =
     [\<lparr>reviews_text = ''good'', name = Some ''A'', cluster_name = Some ''tablets'',
       sentiment = ''positive'', sentiment_score = Some 2\<rparr>,
      \<lparr>reviews_text = ''bad'', name = Some ''B'', cluster_name = Some ''phones'',
       sentiment = ''negative'', sentiment_score = Some 0\<rparr>,
      \<lparr>reviews_text = ''ok'', name = Some ''C'', cluster_name = Some ''laptops'',
       sentiment = ''neutral'', sentiment_score = Some 1\<rparr>]"

section \<open>The classifier\<close>

lemma score_dict_cases:
  "score_dict l = (if l = ''positive'' then Some 2 else if l = ''neutral'' then Some 1
      else if l = ''negative'' then Some 0 else None)"
  by (simp add: score_dict_def)

lemma set_sentiment_cols:
  assumes "length ls = length rs" and "set_sentiment rs ls = Inr rs'"
  shows "map sentiment rs' = ls \<and> map base_row rs' = rs \<and> length rs' = length rs"
proof -
  have rs': "rs' = map (\<lambda>(r, l). with_sentiment r l) (zip rs ls)"
    using assms by (simp add: set_sentiment_def)
  have "map sentiment rs' = map snd (zip rs ls)"
    unfolding rs' by (simp add: with_sentiment_def split_def)
  moreover have "map base_row rs' = map fst (zip rs ls)"
    unfolding rs' by (simp add: with_sentiment_def base_row_def split_def)
  ultimately show ?thesis
    using assms(1) by (simp add: rs')
qed



text \<open>
  C2, as the code has it. Whatever labels the model predicts, one per row, the call
  succeeds: the column \<^verbatim>\<open>sentiment\<close> holds the predicted labels and the column
  \<^verbatim>\<open>sentiment_score\<close> holds the dictionary's value for each label. That value is 0, 1
  or 2 for the labels \<^verbatim>\<open>negative\<close>, \<^verbatim>\<open>neutral\<close>, \<^verbatim>\<open>positive\<close>, and it is missing
  (NaN) for every other label; no error is raised for such a label.
\<close>

theorem process_reviews_scores:
  assumes "transform (map reviews_text (base_rows (h a))) = Inr X"
    and "predict X = Inr ls"
    and "length ls = length (base_rows (h a))"
  shows "\<exists>h'. process_reviews transform predict h a = (Inr a, h')
           \<and> map sentiment (scored_rows (h' a)) = ls
           \<and> map sentiment_score (scored_rows (h' a)) = map score_dict ls
           \<and> (\<forall>l \<in> set ls. l \<in> {''positive'', ''neutral'', ''negative''}
                  \<longrightarrow> score_dict l \<in> {Some 0, Some 1, Some 2})
           \<and> (\<forall>l \<in> set ls. l \<notin> {''positive'', ''neutral'', ''negative''}
                  \<longrightarrow> score_dict l = None)"
proof -
  obtain rs where rs: "set_sentiment (base_rows (h a)) ls = Inr rs"
    using assms(3) by (simp add: set_sentiment_def)
  have cols: "map sentiment rs = ls"
    using set_sentiment_cols [OF assms(3) rs] by simp
  have run: "process_reviews transform predict h a
               = (Inr a, h(a := Scored (map with_score rs)))"
    using assms(1,2) rs by (simp add: process_reviews_def)
  have s1: "map sentiment (map with_score rs) = ls"
    using cols by (simp add: with_score_def comp_def)
  have s2: "map sentiment_score (map with_score rs) = map score_dict ls"
    using cols by (auto simp add: with_score_def comp_def)
  show ?thesis
    using run s1 s2 by (simp add: scored_rows_def score_dict_cases)
qed

theorem process_reviews_scores_witness:
  "process_reviews demo_transform demo_predict demo_heap 0
     = (Inr 0, snd (process_reviews demo_transform demo_predict demo_heap 0))
   \<and> map sentiment_score (scored_rows (snd (process_reviews demo_transform demo_predict demo_heap 0) 0))
     = [Some 2, None]"
  using process_reviews_scores [of demo_transform demo_heap 0 "[''good'', ''so-so'']"
      demo_predict "[''positive'', ''mixed'']"]
  by (auto simp add: demo_transform_def demo_predict_def demo_heap_def demo_reviews_def
      base_rows_def demo_label_def score_dict_cases)

text \<open>
  C2 as stated fails: the model labels the second review \<^verbatim>\<open>mixed\<close>, and the call
  returns normally with a missing score in that row.
\<close>

theorem unknown_label_counterexample:
  "fst (process_reviews demo_transform demo_predict demo_heap 0) = Inr 0
   \<and> map sentiment (scored_rows (snd (process_reviews demo_transform demo_predict demo_heap 0) 0))
       = [''positive'', ''mixed'']
   \<and> map sentiment_score (scored_rows (snd (process_reviews demo_transform demo_predict demo_heap 0) 0))
       = [Some 2, None]"
  by (simp add: process_reviews_def demo_transform_def demo_predict_def demo_heap_def
      demo_reviews_def base_rows_def demo_label_def set_sentiment_def with_sentiment_def
      with_score_def scored_rows_def score_dict_cases)




section \<open>The aggregator\<close>

lemma set_map_filter_conv: "set (List.map_filter f xs) = {y. \<exists>x \<in> set xs. f x = Some y}"
  by (induction xs) (auto simp: List.map_filter_simps split: option.splits)

lemma filter_keyed_map:
  assumes "distinct ks"
  shows "filter (\<lambda>(k, m). k' = k) (map (\<lambda>k. (k, f k)) ks)
           = (if k' \<in> set ks then [(k', f k')] else [])"
  using assms by (induction ks) auto

lemma group_keys_props:
  "distinct (sort (remdups (List.map_filter row_key df)))"
  "sorted (sort (remdups (List.map_filter row_key df)))"
  "set (sort (remdups (List.map_filter row_key df))) = {k. \<exists>r \<in> set df. row_key r = Some k}"
  by (simp_all add: set_map_filter_conv)

lemma merge_row:
  assumes "r \<in> set df"
  shows "filter (\<lambda>(k, m). row_key r = Some k) (product_scores df)
           = (case row_key r of
                None \<Rightarrow> []
              | Some k \<Rightarrow> [(k, mean (map score_value (group_rows df k)))])"
proof (cases "row_key r")
  case None
  then show ?thesis by (simp add: split_def)
next
  case (Some k)
  have "k \<in> set (sort (remdups (List.map_filter row_key df)))"
    using assms Some by (auto simp: set_map_filter_conv)
  then show ?thesis
    using Some filter_keyed_map [OF group_keys_props(1), of k _ df]
    by (simp add: product_scores_def)
qed

lemma calculate_average_scores_rows:
  "calculate_average_scores df = concat (map (avg_row df) df)"
proof -
  have "map (\<lambda>r. map (\<lambda>(k, m). with_avg r m)
                   (filter (\<lambda>(k, m). row_key r = Some k) (product_scores df))) df
          = map (avg_row df) df"
    by (rule map_cong) (auto simp: merge_row avg_row_def split: option.splits)
  then show ?thesis
    unfolding calculate_average_scores_def merge_def by (rule arg_cong)
qed

lemma scored_row_with_avg: "scored_row (with_avg r m) = r"
  by (simp add: scored_row_def with_avg_def)

lemma row_key_with_avg: "row_key (with_avg r m) = row_key r"
  by (simp add: row_key_def with_avg_def cong: option.case_cong)

lemma concat_avg_rows_scored:
  "map scored_row (concat (map (avg_row df0) df)) = filter (\<lambda>r. row_key r \<noteq> None) df"
  by (induction df) (auto simp: avg_row_def scored_row_with_avg split: option.splits)

lemma mean_all_present:
  assumes "xs \<noteq> []"
  shows "mean (map Some xs) = Some (sum_list xs / of_nat (length xs))"
proof -
  have "List.map_filter id (map Some xs) = xs"
    by (induction xs) (simp_all add: List.map_filter_simps)
  then show ?thesis using assms by (simp add: mean_def)
qed

lemma avg_row_member:
  assumes "r' \<in> set (avg_row df r)"
  shows "\<exists>k. row_key r = Some k \<and> r' = with_avg r (mean (map score_value (group_rows df k)))"
  using assms by (cases "row_key r") (auto simp: avg_row_def)

lemma sum_list_of_int: "sum_list (map (of_int \<circ> f) xs) = (of_int (sum_list (map f xs)) :: rat)"
  by (induction xs) simp_all

lemma sentiment_score_avg_with_avg: "sentiment_score_avg (with_avg r m) = m"
  by (simp add: with_avg_def)

lemma score_values_present:
  assumes "\<forall>r \<in> set rs. sentiment_score r \<noteq> None"
  shows "map score_value rs = map Some (map (of_int \<circ> the \<circ> sentiment_score) rs)"
  using assms by (induction rs) (auto simp: score_value_def)

text \<open>
  C1, as the code has it. The returned table holds exactly the input rows whose
  \<^verbatim>\<open>cluster_name\<close> and \<^verbatim>\<open>name\<close> are both present, each once and in the input's order,
  with the column \<^verbatim>\<open>sentiment_score_avg\<close> added. Each returned row carries the mean of
  the scores present among the input rows of its own (category, product) key (the row
  itself is one of them); when no score of the group is missing this is the sum of the
  group's scores over the number of its rows. When no input row has a missing key, the
  returned table has as many rows as the input.
\<close>

theorem calculate_average_scores_rows_and_means:
  "map scored_row (calculate_average_scores df) = filter (\<lambda>r. row_key r \<noteq> None) df
   \<and> (\<forall>r' \<in> set (calculate_average_scores df).
        \<exists>k. row_key r' = Some k \<and> scored_row r' \<in> set (group_rows df k)
          \<and> sentiment_score_avg r' = mean (map score_value (group_rows df k))
          \<and> ((\<forall>r \<in> set (group_rows df k). sentiment_score r \<noteq> None) \<longrightarrow>
               sentiment_score_avg r'
                 = Some (of_int (sum_list (map (the \<circ> sentiment_score) (group_rows df k)))
                          / of_nat (length (group_rows df k)))))
   \<and> ((\<forall>r \<in> set df. row_key r \<noteq> None) \<longrightarrow>
        length (calculate_average_scores df) = length df)"
proof (intro conjI ballI impI)
  show rows: "map scored_row (calculate_average_scores df) = filter (\<lambda>r. row_key r \<noteq> None) df"
    by (simp only: calculate_average_scores_rows concat_avg_rows_scored)
  {
    assume "\<forall>r \<in> set df. row_key r \<noteq> None"
    then have "filter (\<lambda>r. row_key r \<noteq> None) df = df"
      by (simp add: filter_id_conv)
    with rows have "length (map scored_row (calculate_average_scores df)) = length df"
      by simp
    then show "length (calculate_average_scores df) = length df"
      by simp
  }
  fix r'
  assume "r' \<in> set (calculate_average_scores df)"
  then obtain r where r: "r \<in> set df" and r': "r' \<in> set (avg_row df r)"
    by (auto simp: calculate_average_scores_rows)
  from avg_row_member [OF r'] obtain k where k: "row_key r = Some k"
    and eq: "r' = with_avg r (mean (map score_value (group_rows df k)))"
    by blast
  let ?g = "group_rows df k"
  have g: "r \<in> set ?g"
    using r k by (simp add: group_rows_def)
  have avg: "sentiment_score_avg r' = mean (map score_value ?g)"
    by (simp add: eq sentiment_score_avg_with_avg)
  have full: "sentiment_score_avg r'
                = Some (of_int (sum_list (map (the \<circ> sentiment_score) ?g)) / of_nat (length ?g))"
    if "\<forall>r \<in> set ?g. sentiment_score r \<noteq> None"
  proof -
    have ne: "map (of_int \<circ> the \<circ> sentiment_score) ?g \<noteq> ([] :: rat list)"
      using g by auto
    have "sum_list (map (of_int \<circ> (the \<circ> sentiment_score)) ?g)
            = (of_int (sum_list (map (the \<circ> sentiment_score) ?g)) :: rat)"
      by (rule sum_list_of_int)
    then show ?thesis
      using mean_all_present [OF ne]
      by (simp add: avg score_values_present [OF that] comp_assoc)
  qed
  show "\<exists>k. row_key r' = Some k \<and> scored_row r' \<in> set (group_rows df k)
          \<and> sentiment_score_avg r' = mean (map score_value (group_rows df k))
          \<and> ((\<forall>r \<in> set (group_rows df k). sentiment_score r \<noteq> None) \<longrightarrow>
               sentiment_score_avg r'
                 = Some (of_int (sum_list (map (the \<circ> sentiment_score) (group_rows df k)))
                          / of_nat (length (group_rows df k))))"
    using k g avg full by (auto simp: eq row_key_with_avg scored_row_with_avg)
qed

theorem calculate_average_scores_rows_and_means_witness:
  "length (calculate_average_scores demo_keyed) = length demo_keyed
   \<and> map scored_row (calculate_average_scores demo_keyed) = demo_keyed
   \<and> map sentiment_score_avg (calculate_average_scores demo_keyed)
       = [Some (3 / 2), Some 0, Some (3 / 2)]"
  using calculate_average_scores_rows_and_means [of demo_keyed]
  by (simp add: calculate_average_scores_rows demo_keyed_def avg_row_def row_key_def
      group_rows_def mean_def score_value_def List.map_filter_simps with_avg_def)

text \<open>
  C1 as stated fails: a review without a product name is in no group, the inner join
  finds no partner for it, and the returned table is one row short.
\<close>

theorem row_lost_counterexample:
  "length (calculate_average_scores demo_scored) \<noteq> length demo_scored"
  by (simp add: calculate_average_scores_rows demo_scored_def avg_row_def row_key_def)

lemma mean_mset:
  assumes "mset xs = mset ys"
  shows "mean xs = mean ys"
proof -
  have f: "List.map_filter id zs = map the (filter (\<lambda>z. z \<noteq> None) zs)" for zs :: "rat option list"
    by (induction zs) (auto simp: List.map_filter_simps)
  have m: "mset (List.map_filter id xs) = mset (List.map_filter id ys)"
    using assms by (simp add: f)
  have "sum_list (List.map_filter id xs) = sum_list (List.map_filter id ys)"
    using m by (metis sum_mset_sum_list)
  moreover have "length (List.map_filter id xs) = length (List.map_filter id ys)"
    using m by (rule mset_eq_length)
  moreover have "List.map_filter id xs = [] \<longleftrightarrow> List.map_filter id ys = []"
    using m by (metis mset_zero_iff)
  ultimately show ?thesis
    by (simp add: mean_def Let_def)
qed

lemma group_mean_mset:
  assumes "mset df' = mset df"
  shows "mean (map score_value (group_rows df' k)) = mean (map score_value (group_rows df k))"
  by (rule mean_mset) (simp add: group_rows_def assms)

lemma product_scores_mset:
  assumes "mset df' = mset df"
  shows "product_scores df' = product_scores df"
proof -
  have "set df' = set df"
    using assms by (rule mset_eq_setD)
  then have "set (List.map_filter row_key df') = set (List.map_filter row_key df)"
    by (simp add: set_map_filter_conv)
  then have "sort (remdups (List.map_filter row_key df'))
               = sort (remdups (List.map_filter row_key df))"
    by (simp add: sorted_list_of_set_sort_remdups [symmetric])
  then show ?thesis
    by (simp add: product_scores_def group_mean_mset [OF assms])
qed

text \<open>
  C6. For a table and any permutation of its rows, the aggregation gives the same table
  of group means, the same mean for every (category, product) key, and the same rows with
  the same averages (as a multiset: the rows come in the order of the input). Two runs on
  the same input give the same result, the aggregation being a function of the table.
\<close>

theorem averages_order_independent:
  assumes "mset df' = mset df"
  shows "product_scores df' = product_scores df
       \<and> mean (map score_value (group_rows df' k)) = mean (map score_value (group_rows df k))
       \<and> mset (calculate_average_scores df') = mset (calculate_average_scores df)"
proof -
  have rows: "avg_row df' = avg_row df"
    by (rule ext) (simp add: avg_row_def group_mean_mset [OF assms] cong: option.case_cong)
  have "mset (concat (map (avg_row df) df')) = mset (concat (map (avg_row df) df))"
    using assms by (simp add: mset_concat flip: sum_mset_sum_list)
  then show ?thesis
    using product_scores_mset [OF assms] group_mean_mset [OF assms]
    by (simp add: calculate_average_scores_rows rows)
qed

theorem averages_order_independent_witness:
  "product_scores (rev demo_keyed) = product_scores demo_keyed
   \<and> mset (calculate_average_scores (rev demo_keyed)) = mset (calculate_average_scores demo_keyed)"
  using averages_order_independent [of "rev demo_keyed" demo_keyed]
  by simp

section \<open>The reporter's means\<close>

lemma sorted_snd_of_fst:
  assumes "sorted (K :: ('a::linorder \<times> 'b::linorder) list)" and "distinct K"
  shows "sorted (map snd (filter (\<lambda>k. fst k = c) K))"
    and "distinct (map snd (filter (\<lambda>k. fst k = c) K))"
proof -
  have "sorted_wrt (\<le>) (filter (\<lambda>k. fst k = c) K)"
    using assms(1) by (rule sorted_wrt_filter)
  then have "sorted_wrt (\<lambda>x y. snd x \<le> snd y) (filter (\<lambda>k. fst k = c) K)"
    by (rule sorted_wrt_mono_rel [rotated]) (auto simp: less_eq_prod_def)
  then show "sorted (map snd (filter (\<lambda>k. fst k = c) K))"
    by (simp add: sorted_wrt_map)
  have "inj_on snd (set (filter (\<lambda>k. fst k = c) K))"
    by (auto simp: inj_on_def)
  then show "distinct (map snd (filter (\<lambda>k. fst k = c) K))"
    using assms(2) by (simp add: distinct_map)
qed

lemma averaged_rows:
  assumes "r' \<in> set (calculate_average_scores df0)"
  shows "\<exists>r k. r \<in> set df0 \<and> row_key r = Some k
           \<and> r' = with_avg r (mean (map score_value (group_rows df0 k)))"
proof -
  from assms obtain r where "r \<in> set df0" and "r' \<in> set (avg_row df0 r)"
    by (auto simp: calculate_average_scores_rows)
  then show ?thesis
    by (metis avg_row_member)
qed

lemma averaged_rows_intro:
  assumes "r \<in> set df0" and "row_key r = Some k"
  shows "with_avg r (mean (map score_value (group_rows df0 k))) \<in> set (calculate_average_scores df0)"
proof -
  have "with_avg r (mean (map score_value (group_rows df0 k))) \<in> set (avg_row df0 r)"
    using assms(2) by (simp add: avg_row_def)
  then show ?thesis
    using assms(1) by (auto simp: calculate_average_scores_rows)
qed

lemma row_key_Some:
  "row_key r = Some (c, n) \<longleftrightarrow> cluster_name r = Some c \<and> name r = Some n"
  by (auto simp: row_key_def split: option.splits)

lemma with_avg_fields:
  "cluster_name (with_avg r m) = cluster_name r" "name (with_avg r m) = name r"
  by (simp_all add: with_avg_def)

lemma category_names:
  "set (List.map_filter name (category_df (calculate_average_scores df0) (Some c)))
     = {n. \<exists>r \<in> set df0. row_key r = Some (c, n)}" (is "?L = ?R")
proof (intro set_eqI iffI)
  fix n assume "n \<in> ?L"
  then obtain r' where r': "r' \<in> set (calculate_average_scores df0)"
    and c: "cluster_name r' = Some c" and n: "name r' = Some n"
    by (auto simp: set_map_filter_conv category_df_def)
  from averaged_rows [OF r'] obtain r k where "r \<in> set df0" "row_key r = Some k"
    and "r' = with_avg r (mean (map score_value (group_rows df0 k)))"
    by blast
  then show "n \<in> ?R"
    using c n by (auto simp: with_avg_fields row_key_Some)
next
  fix n assume "n \<in> ?R"
  then obtain r where r: "r \<in> set df0" and k: "row_key r = Some (c, n)"
    by blast
  from averaged_rows_intro [OF r k] show "n \<in> ?L"
    using k by (auto simp: set_map_filter_conv category_df_def row_key_Some with_avg_fields
        intro!: bexI [of _ "with_avg r (mean (map score_value (group_rows df0 (c, n))))"])
qed

lemma reaveraged_rows:
  "map sentiment_score_avg
     (filter (\<lambda>r. name r = Some n) (category_df (concat (map (avg_row df0) df)) (Some c)))
   = replicate (length (group_rows df (c, n))) (mean (map score_value (group_rows df0 (c, n))))"
proof (induction df)
  case Nil
  show ?case by (simp add: category_df_def group_rows_def)
next
  case (Cons r df)
  show ?case
  proof (cases "row_key r")
    case None
    then show ?thesis
      using Cons.IH by (simp add: category_df_def group_rows_def avg_row_def)
  next
    case (Some k)
    show ?thesis
    proof (cases "k = (c, n)")
      case True
      then have "cluster_name r = Some c" "name r = Some n"
        using Some by (simp_all add: row_key_Some)
      then show ?thesis
        using Cons.IH Some True
        by (simp add: category_df_def group_rows_def avg_row_def with_avg_fields
            sentiment_score_avg_with_avg)
    next
      case False
      then have "\<not> (cluster_name r = Some c \<and> name r = Some n)"
        using Some by (cases k) (simp add: row_key_Some)
      then show ?thesis
        using Cons.IH Some False
        by (auto simp: category_df_def group_rows_def avg_row_def with_avg_fields)
    qed
  qed
qed

text \<open>
  What the reporter's re-aggregation is, for any mean of a float column. The per-product
  table of a category lists the products of the aggregator's groups of that category, in
  the same order, and the value of a product is the mean of as many copies of its group
  mean as the group has rows. Whether that is the group mean itself is a question about
  the float arithmetic inside \<open>avg\<close>.
\<close>

lemma product_sentiments_reaverages:
  "product_sentiments avg (category_df (calculate_average_scores df0) (Some c))
     = map (\<lambda>(k, m). (snd k, avg (replicate (length (group_rows df0 k)) m)))
         (filter (\<lambda>(k, m). fst k = c) (product_scores df0))"
proof -
  let ?K = "sort (remdups (List.map_filter row_key df0))"
  let ?cdf = "category_df (calculate_average_scores df0) (Some c)"
  let ?N = "sort (remdups (List.map_filter name ?cdf))"
  let ?gm = "\<lambda>k. mean (map score_value (group_rows df0 k))"
  have names: "map snd (filter (\<lambda>k. fst k = c) ?K) = ?N"
  proof (rule sorted_distinct_set_unique)
    show "sorted (map snd (filter (\<lambda>k. fst k = c) ?K))"
      and "distinct (map snd (filter (\<lambda>k. fst k = c) ?K))"
      by (rule sorted_snd_of_fst; simp)+
    show "sorted ?N" and "distinct ?N"
      by simp_all
    have "set ?N = {n. \<exists>r \<in> set df0. row_key r = Some (c, n)}"
      by (simp add: category_names)
    moreover have "set (map snd (filter (\<lambda>k. fst k = c) ?K))
                     = {n. \<exists>r \<in> set df0. row_key r = Some (c, n)}"
      by (force simp: set_map_filter_conv image_iff)
    ultimately show "set (map snd (filter (\<lambda>k. fst k = c) ?K)) = set ?N"
      by simp
  qed
  have "product_sentiments avg ?cdf
          = map (\<lambda>n. (n, avg (replicate (length (group_rows df0 (c, n))) (?gm (c, n))))) ?N"
    by (simp add: product_sentiments_def calculate_average_scores_rows reaveraged_rows)
  also have "\<dots> = map (\<lambda>k. (snd k, avg (replicate (length (group_rows df0 k)) (?gm k))))
                      (filter (\<lambda>k. fst k = c) ?K)"
    unfolding names [symmetric] by (auto simp: comp_def)
  also have "\<dots> = map (\<lambda>(k, m). (snd k, avg (replicate (length (group_rows df0 k)) m)))
                      (filter (\<lambda>(k, m). fst k = c) (product_scores df0))"
    by (simp add: product_scores_def filter_map comp_def split_def)
  finally show ?thesis .
qed

section \<open>The reporter's selections\<close>

lemma wrap_valued:
  "map (\<lambda>(p, v). (p, Some v)) (valued ps) = filter (\<lambda>(p, m). m \<noteq> None) ps"
  by (induction ps) (auto simp: valued_def List.map_filter_simps split: option.splits)

lemma mset_sort_values: "mset (sort_values asc ps) = mset ps"
proof -
  have "mset (map (\<lambda>(p, v). (p, Some v)) (sort_key (\<lambda>(p, v). if asc then v else - v) (valued ps)))
          = mset (map (\<lambda>(p, v). (p, Some v)) (valued ps))"
    by simp
  also have "\<dots> = mset (filter (\<lambda>(p, m). m \<noteq> None) ps)"
    by (simp only: wrap_valued)
  finally show ?thesis
    by (simp add: sort_values_def unvalued_def split_def)
qed

lemma sorted_sort_values: "sorted_wrt (ranks_before asc) (sort_values asc ps)"
proof -
  let ?k = "\<lambda>(p :: 'a, v :: rat). if asc then v else - v"
  have "sorted (map ?k (sort_key ?k (valued ps)))"
    by (rule sorted_sort_key)
  then have "sorted_wrt (\<lambda>a b. ?k a \<le> ?k b) (sort_key ?k (valued ps))"
    by (simp add: sorted_map)
  then have "sorted_wrt (\<lambda>a b. ranks_before asc ((\<lambda>(p, v). (p, Some v)) a) ((\<lambda>(p, v). (p, Some v)) b))
               (sort_key ?k (valued ps))"
    by (rule sorted_wrt_mono_rel [rotated]) (auto simp: ranks_before_def)
  then have 1: "sorted_wrt (ranks_before asc)
                  (map (\<lambda>(p, v). (p, Some v)) (sort_key ?k (valued ps)))"
    by (simp add: sorted_wrt_map)
  have 2: "sorted_wrt (ranks_before asc) (unvalued ps)"
    by (rule sorted_wrt_mono_rel [of _ "\<lambda>a b. True"]) (auto simp: unvalued_def ranks_before_def)
  have 3: "ranks_before asc a b" if "b \<in> set (unvalued ps)" for a b
    using that by (auto simp: unvalued_def ranks_before_def)
  show ?thesis
    unfolding sort_values_def using 1 2 3 by (simp add: sorted_wrt_append)
qed

lemma sort_values_stable:
  "filter (\<lambda>x. snd x = m) (sort_values asc ps) = filter (\<lambda>x. snd x = m) ps"
proof (cases m)
  case None
  have "filter (\<lambda>x. snd x = None) (map (\<lambda>(p, v). (p, Some v)) xs) = []" for xs :: "('a \<times> rat) list"
    by (induction xs) auto
  then show ?thesis
    using None by (simp add: sort_values_def unvalued_def split_def cong: filter_cong)
next
  case (Some v)
  let ?k = "\<lambda>(p :: 'a, v :: rat). if asc then v else - v"
  let ?w = "\<lambda>(p :: 'a, v :: rat). (p, Some v)"
  have key: "(snd (?w x) = Some v) = (?k x = ?k (undefined, v))" for x
    by (cases x) auto
  have "filter (\<lambda>x. snd x = Some v) (map ?w (sort_key ?k (valued ps)))
          = map ?w (filter (\<lambda>x. ?k x = ?k (undefined, v)) (sort_key ?k (valued ps)))"
    by (simp add: filter_map comp_def key)
  also have "\<dots> = map ?w (filter (\<lambda>x. ?k x = ?k (undefined, v)) (valued ps))"
    by (simp only: sort_key_stable)
  also have "\<dots> = filter (\<lambda>x. snd x = Some v) (map ?w (valued ps))"
    by (simp add: filter_map comp_def key)
  also have "\<dots> = filter (\<lambda>x. snd x = Some v) (filter (\<lambda>(p, m). m \<noteq> None) ps)"
    by (simp only: wrap_valued)
  also have "\<dots> = filter (\<lambda>x. snd x = Some v) ps"
    by (auto intro: filter_cong)
  finally have "filter (\<lambda>x. snd x = Some v) (map ?w (sort_key ?k (valued ps)))
                  = filter (\<lambda>x. snd x = Some v) ps" .
  moreover have "filter (\<lambda>x. snd x = Some v) (unvalued ps) = []"
    by (auto simp: unvalued_def filter_empty_conv)
  ultimately show ?thesis
    using Some by (simp add: sort_values_def)
qed

lemma length_sort_values: "length (sort_values asc ps) = length ps"
  using mset_sort_values [of asc ps] by (rule mset_eq_length)

lemma selection_spec:
  "length (take n (sort_values asc ps)) = min n (length ps)"
  "\<exists>rest. mset (take n (sort_values asc ps) @ rest) = mset ps
         \<and> sorted_wrt (ranks_before asc) (take n (sort_values asc ps) @ rest)"
proof -
  show "length (take n (sort_values asc ps)) = min n (length ps)"
    by (simp add: length_sort_values min.commute)
  have "mset (take n (sort_values asc ps) @ drop n (sort_values asc ps)) = mset ps"
    by (simp only: append_take_drop_id mset_sort_values)
  moreover have "sorted_wrt (ranks_before asc)
                   (take n (sort_values asc ps) @ drop n (sort_values asc ps))"
    by (simp only: append_take_drop_id sorted_sort_values)
  ultimately show "\<exists>rest. mset (take n (sort_values asc ps) @ rest) = mset ps
         \<and> sorted_wrt (ranks_before asc) (take n (sort_values asc ps) @ rest)"
    by blast
qed

lemma bottom_product_first:
  assumes "ps \<noteq> []"
  shows "\<exists>b m. bottom_product ps = Inr b \<and> nsmallest 1 ps = [(b, m)]"
proof -
  have "length (nsmallest 1 ps) = 1"
    using assms by (cases ps) (simp_all add: nsmallest_def length_sort_values)
  then obtain x where "nsmallest 1 ps = [x]"
    by (cases "nsmallest 1 ps") auto
  then show ?thesis
    by (cases x) (simp add: bottom_product_def)
qed

lemma product_sentiments_names:
  "map fst (product_sentiments avg cdf) = sort (remdups (List.map_filter name cdf))"
  by (simp add: product_sentiments_def comp_def)

lemma demo_four_averaged:
  "map (\<lambda>r. (name r, sentiment_score_avg r)) (calculate_average_scores demo_four)
     = [(Some ''D'', Some (1 / 2)), (Some ''B'', Some (3 / 2)), (Some ''A'', Some 2),
        (Some ''C'', Some 1), (Some ''B'', Some (3 / 2)), (Some ''D'', Some (1 / 2)),
        (Some ''A'', Some 2), (Some ''C'', Some 1)]"
  by (simp add: calculate_average_scores_rows demo_four_def avg_row_def row_key_def
      group_rows_def mean_def score_value_def List.map_filter_simps with_avg_def)

lemma demo_four_sentiments:
  "product_sentiments mean (category_df (calculate_average_scores demo_four) (Some ''tablets''))
     = [(''A'', Some 2), (''B'', Some (3 / 2)), (''C'', Some 1), (''D'', Some (1 / 2))]"
  by (simp add: calculate_average_scores_rows demo_four_def avg_row_def row_key_def
      group_rows_def mean_def score_value_def List.map_filter_simps with_avg_def
      product_sentiments_def category_df_def)

lemma demo_four_selection:
  "top_products (product_sentiments mean (category_df (calculate_average_scores demo_four) (Some ''tablets'')))
     = [''A'', ''B'', ''C'']"
  "bottom_product (product_sentiments mean (category_df (calculate_average_scores demo_four) (Some ''tablets'')))
     = Inr ''D''"
  by (simp_all add: demo_four_sentiments top_products_def bottom_product_def nlargest_def
      nsmallest_def sort_values_def valued_def unvalued_def List.map_filter_simps)

lemma set_unique: "set (unique xs) = set xs"
  by (induction xs rule: unique.induct) auto

lemma category_has_products:
  assumes "category \<in> set (unique (map cluster_name (calculate_average_scores df0)))"
  shows "product_sentiments avg (category_df (calculate_average_scores df0) category) \<noteq> []"
proof -
  from assms obtain r' where r': "r' \<in> set (calculate_average_scores df0)"
    and cat: "category = cluster_name r'"
    by (auto simp: set_unique)
  from averaged_rows [OF r'] obtain r k where r: "r \<in> set df0" and k: "row_key r = Some k"
    and eq: "r' = with_avg r (mean (map score_value (group_rows df0 k)))"
    by blast
  obtain c n where cn: "k = (c, n)"
    by (cases k)
  have c: "category = Some c"
    using cat eq k cn by (simp add: with_avg_fields row_key_Some)
  have "n \<in> set (List.map_filter name (category_df (calculate_average_scores df0) (Some c)))"
    using r k cn by (auto simp: category_names)
  then have "set (map fst (product_sentiments avg (category_df (calculate_average_scores df0) (Some c)))) \<noteq> {}"
    by (auto simp: product_sentiments_names)
  then show ?thesis
    using c by auto
qed

text \<open>
  C4. For every category of the averaged table, the products of the category can be
  arranged in descending order of their mean (products without a mean last) so that the
  top products are the first three of the arrangement, or all of them when the category
  has fewer than three; and they can be arranged in ascending order so that the bottom
  product, which always exists, is the first. For the category of four products with the
  means A = 2, B = 3/2, C = 1, D = 1/2 the top products are [A, B, C] and the bottom
  product is D.
\<close>

theorem top3_and_bottom1:
  "(category \<in> set (unique (map cluster_name (calculate_average_scores df0))) \<longrightarrow>
      ps = product_sentiments avg (category_df (calculate_average_scores df0) category) \<longrightarrow>
      (\<exists>top rest. top_products ps = map fst top \<and> length top = min 3 (length ps)
          \<and> mset (top @ rest) = mset ps \<and> sorted_wrt (ranks_before False) (top @ rest))
      \<and> (\<exists>b m rest. bottom_product ps = Inr b
          \<and> mset ((b, m) # rest) = mset ps \<and> sorted_wrt (ranks_before True) ((b, m) # rest)))
   \<and> product_sentiments mean (category_df (calculate_average_scores demo_four) (Some ''tablets''))
       = [(''A'', Some 2), (''B'', Some (3 / 2)), (''C'', Some 1), (''D'', Some (1 / 2))]
   \<and> top_products (product_sentiments mean
         (category_df (calculate_average_scores demo_four) (Some ''tablets'')))
       = [''A'', ''B'', ''C'']
   \<and> bottom_product (product_sentiments mean
         (category_df (calculate_average_scores demo_four) (Some ''tablets'')))
       = Inr ''D''"
proof (intro conjI impI)
  assume cat: "category \<in> set (unique (map cluster_name (calculate_average_scores df0)))"
    and ps: "ps = product_sentiments avg (category_df (calculate_average_scores df0) category)"
  have ne: "ps \<noteq> []"
    using category_has_products [OF cat] ps by simp
  from selection_spec [of 3 False ps]
  show "\<exists>top rest. top_products ps = map fst top \<and> length top = min 3 (length ps)
          \<and> mset (top @ rest) = mset ps \<and> sorted_wrt (ranks_before False) (top @ rest)"
    unfolding top_products_def nlargest_def by blast
  from bottom_product_first [OF ne] obtain b m
    where b: "bottom_product ps = Inr b" and first: "take 1 (sort_values True ps) = [(b, m)]"
    unfolding nsmallest_def by blast
  from selection_spec(2) [of 1 True ps] first
  show "\<exists>b m rest. bottom_product ps = Inr b
          \<and> mset ((b, m) # rest) = mset ps \<and> sorted_wrt (ranks_before True) ((b, m) # rest)"
    using b by auto
qed (rule demo_four_sentiments demo_four_selection)+

theorem top3_and_bottom1_witness:
  "(\<exists>top rest.
      top_products [(''A'', Some 2), (''B'', Some (3 / 2)), (''C'', Some 1), (''D'', Some (1 / 2))]
        = map fst top
      \<and> length top
        = min 3 (length [(''A'', Some 2), (''B'', Some (3 / 2)), (''C'', Some 1),
                         (''D'', Some (1 / 2 :: rat))])
      \<and> mset (top @ rest)
        = mset [(''A'', Some 2), (''B'', Some (3 / 2)), (''C'', Some 1), (''D'', Some (1 / 2))]
      \<and> sorted_wrt (ranks_before False) (top @ rest))
   \<and> (\<exists>b m rest.
      bottom_product [(''A'', Some 2), (''B'', Some (3 / 2)), (''C'', Some 1), (''D'', Some (1 / 2))]
        = Inr b
      \<and> mset ((b, m) # rest)
        = mset [(''A'', Some 2), (''B'', Some (3 / 2)), (''C'', Some 1), (''D'', Some (1 / 2))]
      \<and> sorted_wrt (ranks_before True) ((b, m) # rest))"
proof -
  have cat: "Some ''tablets'' \<in> set (unique (map cluster_name (calculate_average_scores demo_four)))"
    by (simp add: calculate_average_scores_rows demo_four_def avg_row_def row_key_def
        with_avg_def)
  have ps: "[(''A'', Some 2), (''B'', Some (3 / 2)), (''C'', Some 1), (''D'', Some (1 / 2))]
              = product_sentiments mean (category_df (calculate_average_scores demo_four) (Some ''tablets''))"
    by (simp only: demo_four_sentiments)
  from top3_and_bottom1 [of "Some ''tablets''" demo_four
      "[(''A'', Some 2), (''B'', Some (3 / 2)), (''C'', Some 1), (''D'', Some (1 / 2))]" mean]
    cat ps
  show ?thesis
    by blast
qed

lemma single_name_sentiments:
  assumes "name ` set cdf = {Some n}"
  shows "product_sentiments avg cdf = [(n, avg (map sentiment_score_avg cdf))]"
proof -
  have all: "\<forall>r \<in> set cdf. name r = Some n"
    using assms by auto
  have "Some n \<in> name ` set cdf"
    using assms by simp
  then obtain r where "r \<in> set cdf" "name r = Some n"
    by auto
  then have "set (List.map_filter name cdf) = {n}"
    using all by (auto simp: set_map_filter_conv)
  then have "sort (remdups (List.map_filter name cdf)) = [n]"
    by (simp add: sorted_list_of_set_sort_remdups [symmetric])
  moreover have "filter (\<lambda>r. name r = Some n) cdf = cdf"
    using all by (simp add: filter_id_conv)
  ultimately show ?thesis
    by (simp add: product_sentiments_def)
qed

lemma sort_values_single: "sort_values asc [(n, m)] = [(n, m)]"
  by (cases m) (simp_all add: sort_values_def valued_def unvalued_def List.map_filter_simps)

text \<open>
  C5. When the rows of a category all carry one and the same product name, the top
  products are the list of just that product, and the bottom product is that product.
\<close>

theorem single_product_category:
  assumes "name ` set (category_df df category) = {Some n}"
  shows "top_products (product_sentiments avg (category_df df category)) = [n]
       \<and> bottom_product (product_sentiments avg (category_df df category)) = Inr n"
  by (simp add: single_name_sentiments [OF assms] top_products_def bottom_product_def
      nlargest_def nsmallest_def sort_values_single)

lemma demo_scored_averaged:
  "calculate_average_scores demo_scored
     = [\<lparr>reviews_text = ''good'', name = Some ''A'', cluster_name = Some ''tablets'',
         sentiment = ''positive'', sentiment_score = Some 2, sentiment_score_avg = Some (3 / 2)\<rparr>,
        \<lparr>reviews_text = ''ok'', name = Some ''A'', cluster_name = Some ''tablets'',
         sentiment = ''neutral'', sentiment_score = Some 1, sentiment_score_avg = Some (3 / 2)\<rparr>]"
  by (simp add: calculate_average_scores_rows demo_scored_def avg_row_def row_key_def
      group_rows_def mean_def score_value_def List.map_filter_simps with_avg_def)

theorem single_product_category_witness:
  "top_products (product_sentiments mean
       (category_df (calculate_average_scores demo_scored) (Some ''tablets''))) = [''A'']
   \<and> bottom_product (product_sentiments mean
       (category_df (calculate_average_scores demo_scored) (Some ''tablets''))) = Inr ''A''"
proof -
  have "name ` set (category_df (calculate_average_scores demo_scored) (Some ''tablets''))
          = {Some ''A''}"
    by (simp add: demo_scored_averaged category_df_def)
  then show ?thesis
    by (rule single_product_category)
qed

subsection \<open>Ties\<close>

lemma sorted_names: "sorted_wrt (<) (map fst (product_sentiments avg cdf))"
  by (simp add: product_sentiments_names strict_sorted_iff)

lemma ties_in_frame_order:
  assumes "sorted_wrt (<) (map fst ps)"
  shows "sorted_wrt (<) (map fst (filter (\<lambda>x. snd x = m) (sort_values asc ps)))"
proof -
  have "sorted_wrt (\<lambda>a b. fst a < fst b) ps"
    using assms by (simp add: sorted_wrt_map)
  then have "sorted_wrt (\<lambda>a b. fst a < fst b) (filter (\<lambda>x. snd x = m) ps)"
    by (rule sorted_wrt_filter)
  then show ?thesis
    by (simp add: sort_values_stable sorted_wrt_map)
qed

lemma ties_split:
  assumes "sorted_wrt (<) (map fst ps)"
  shows "sorted_wrt (<) (map fst (filter (\<lambda>x. snd x = m) (take k (sort_values asc ps))))"
    and "\<forall>x \<in> set (take k (sort_values asc ps)). \<forall>y \<in> set (drop k (sort_values asc ps)).
           snd x = m \<longrightarrow> snd y = m \<longrightarrow> fst x < fst y"
proof -
  let ?R = "sort_values asc ps"
  have eq: "map fst (filter (\<lambda>x. snd x = m) ?R)
              = map fst (filter (\<lambda>x. snd x = m) (take k ?R))
                @ map fst (filter (\<lambda>x. snd x = m) (drop k ?R))"
    using arg_cong [OF filter_append [of "\<lambda>x. snd x = m" "take k ?R" "drop k ?R"], of "map fst"]
    by (simp only: append_take_drop_id map_append)
  have *: "sorted_wrt (<) (map fst (filter (\<lambda>x. snd x = m) (take k ?R))
                 @ map fst (filter (\<lambda>x. snd x = m) (drop k ?R)))"
    using ties_in_frame_order [OF assms, of m asc] by (simp only: eq)
  then show "sorted_wrt (<) (map fst (filter (\<lambda>x. snd x = m) (take k ?R)))"
    by (simp add: sorted_wrt_append)
  from * show "\<forall>x \<in> set (take k ?R). \<forall>y \<in> set (drop k ?R).
           snd x = m \<longrightarrow> snd y = m \<longrightarrow> fst x < fst y"
    by (auto simp: sorted_wrt_append)
qed

lemma tie_goes_to_first_name:
  fixes ps :: "('a::linorder \<times> rat option) list"
  assumes sorted: "sorted_wrt (<) (map fst ps)"
    and p: "(p, m) \<in> set ps" and q: "(q, m) \<in> set ps" and pq: "p \<le> q"
    and sel: "q \<in> fst ` set (take k (sort_values asc ps))"
  shows "p \<in> fst ` set (take k (sort_values asc ps))"
proof (rule ccontr)
  let ?R = "sort_values asc ps"
  assume not: "p \<notin> fst ` set (take k ?R)"
  have setR: "set ?R = set ps"
    using mset_sort_values [of asc ps] by (rule mset_eq_setD)
  have dist: "distinct (map fst ps)"
    using sorted by (simp only: strict_sorted_iff)
  from sel obtain x where x: "x \<in> set (take k ?R)" and fx: "q = fst x"
    by (rule imageE)
  obtain m' where xm: "x = (q, m')"
    using fx by (cases x) simp
  have "(q, m') \<in> set ?R"
    using x unfolding xm by (rule in_set_takeD)
  then have "(q, m') \<in> set ps"
    by (simp only: setR)
  then have "m' = m"
    using q by (rule eq_key_imp_eq_value [OF dist])
  then have qin: "(q, m) \<in> set (take k ?R)"
    using x xm by simp
  have "(p, m) \<in> set (take k ?R @ drop k ?R)"
    using p setR by (simp only: append_take_drop_id)
  then have "(p, m) \<in> set (take k ?R) \<or> (p, m) \<in> set (drop k ?R)"
    by (simp only: set_append Un_iff)
  moreover have "(p, m) \<notin> set (take k ?R)"
  proof
    assume "(p, m) \<in> set (take k ?R)"
    then have "fst (p, m) \<in> fst ` set (take k ?R)"
      by (rule imageI)
    then show False
      using not by simp
  qed
  ultimately have pin: "(p, m) \<in> set (drop k ?R)"
    by blast
  have "fst (q, m) < fst (p, m)"
    using ties_split(2) [OF sorted, of k asc m, rule_format, OF qin pin] by simp
  then have "q < p"
    by simp
  with pq show False
    by simp
qed

text \<open>
  C10. The per-product table lists the products in ascending order of their names, and
  the selections keep that order among products of equal mean. Here the mean of a product
  is its value in the per-product table, the float that the selection compares, whatever
  the float arithmetic of \<open>avg\<close> makes it. So among the selected top products those of
  equal mean stand in ascending order of their names; when two products of a category have
  the same mean and the one with the later name is among the top products, so is the one
  with the earlier name; and the bottom product has the earliest name among the products
  that share its mean.
\<close>

theorem ties_prefer_first_name:
  assumes "ps = product_sentiments avg cdf"
  shows "sorted_wrt (<) (map fst (filter (\<lambda>x. snd x = m) (nlargest 3 ps)))
       \<and> ((p, m) \<in> set ps \<and> (q, m) \<in> set ps \<and> p \<le> q \<and> q \<in> set (top_products ps)
            \<longrightarrow> p \<in> set (top_products ps))
       \<and> ((b, m) \<in> set ps \<and> (q, m) \<in> set ps \<and> bottom_product ps = Inr b \<longrightarrow> b \<le> q)"
proof (intro conjI impI)
  have sorted: "sorted_wrt (<) (map fst ps)"
    using assms sorted_names by simp
  show "sorted_wrt (<) (map fst (filter (\<lambda>x. snd x = m) (nlargest 3 ps)))"
    unfolding nlargest_def by (rule ties_split(1) [OF sorted])
  {
    assume "(p, m) \<in> set ps \<and> (q, m) \<in> set ps \<and> p \<le> q \<and> q \<in> set (top_products ps)"
    then show "p \<in> set (top_products ps)"
      using tie_goes_to_first_name [OF sorted, of p m q 3 False]
      by (simp add: top_products_def nlargest_def)
  }
  assume a: "(b, m) \<in> set ps \<and> (q, m) \<in> set ps \<and> bottom_product ps = Inr b"
  then have "ps \<noteq> []"
    by auto
  from bottom_product_first [OF this] a obtain m'
    where "take 1 (sort_values True ps) = [(b, m')]"
    unfolding nsmallest_def by auto
  then have only: "fst ` set (take 1 (sort_values True ps)) = {b}"
    by simp
  show "b \<le> q"
  proof (rule ccontr)
    assume "\<not> b \<le> q"
    then have "q \<le> b" by simp
    with tie_goes_to_first_name [OF sorted, of q m b 1 True] a only have "q = b"
      by simp
    with \<open>\<not> b \<le> q\<close> show False by simp
  qed
qed

lemma demo_ties_sentiments:
  "product_sentiments mean (category_df demo_ties (Some ''tablets''))
     = [(''A'', Some 1), (''B'', Some 1), (''C'', Some 1), (''D'', Some 1)]"
  by (simp add: demo_ties_def product_sentiments_def category_df_def mean_def
      List.map_filter_simps)

lemma demo_ties_selection:
  "top_products [(''A'', Some 1), (''B'', Some 1), (''C'', Some 1), (''D'', Some 1)]
     = [''A'', ''B'', ''C'']"
  "bottom_product [(''A'', Some 1), (''B'', Some 1), (''C'', Some 1), (''D'', Some 1)]
     = Inr ''A''"
  by (simp_all add: top_products_def bottom_product_def nlargest_def nsmallest_def
      sort_values_def valued_def unvalued_def List.map_filter_simps)

theorem ties_prefer_first_name_witness:
  "sorted_wrt (<) (map fst (filter (\<lambda>x. snd x = Some 1)
      (nlargest 3 [(''A'', Some 1), (''B'', Some 1), (''C'', Some 1), (''D'', Some 1)])))
   \<and> ''B'' \<in> set (top_products [(''A'', Some 1), (''B'', Some 1), (''C'', Some 1), (''D'', Some 1)])
   \<and> ''A'' \<le> ''D''"
  using ties_prefer_first_name [of "[(''A'', Some 1), (''B'', Some 1), (''C'', Some 1), (''D'', Some 1)]"
      mean "category_df demo_ties (Some ''tablets'')" "Some 1" "''B''" "''C''" "''A''"]
    ties_prefer_first_name [of "[(''A'', Some 1), (''B'', Some 1), (''C'', Some 1), (''D'', Some 1)]"
      mean "category_df demo_ties (Some ''tablets'')" "Some 1" "''B''" "''D''" "''A''"]
  by (simp add: demo_ties_sentiments demo_ties_selection)

section \<open>The reporter's loop\<close>

lemma generate_article_world:
  assumes "create (service w) (article_request cn tops bottom reviews) = (res, s)"
  shows "generate_article create w cn tops bottom reviews
           = (map_sum id strip res,
              w\<lparr>requests := requests w @ [article_request cn tops bottom reviews], service := s\<rparr>)"
  using assms by (cases res) (simp_all add: generate_article_def)

lemma category_loop_append:
  "category_loop avg create df (pre @ post) w =
     (case category_loop avg create df pre w of
        (Inl e, w') \<Rightarrow> (Inl e, w')
      | (Inr u, w') \<Rightarrow> category_loop avg create df post w')"
proof (induction pre arbitrary: w)
  case Nil
  show ?case by simp
next
  case (Cons category pre)
  show ?case
    by (simp add: Cons.IH Let_def split: sum.splits prod.splits)
qed

lemma top_reviews_of_table:
  "top_reviews (category_df df (Some c)) tops
     = map reviews_text (filter (\<lambda>r. cluster_name r = Some c \<and> isin (name r) tops) df)"
  by (simp add: top_reviews_def category_df_def conj_commute)

text \<open>
  C7. For a category, the reviews that go into the prompt are at most five, and they are
  the texts of the first five rows of the table (all of them when there are fewer) that
  belong to the category and whose product is one of the top products; the one request
  the loop sends for the category carries exactly these texts, joined by spaces.
\<close>

theorem sample_reviews_first_five:
  assumes "tops = top_products (product_sentiments avg (category_df df (Some c)))"
    and "bottom_product (product_sentiments avg (category_df df (Some c))) = Inr bottom"
    and "sample = take 5 (top_reviews (category_df df (Some c)) tops)"
  shows "length sample \<le> 5
       \<and> sample = map reviews_text
           (take 5 (filter (\<lambda>r. cluster_name r = Some c \<and> isin (name r) tops) df))
       \<and> requests (snd (category_loop avg create df [Some c] w))
           = requests w @ [article_request c tops bottom (join '' '' sample)]"
proof (intro conjI)
  show "length sample \<le> 5"
    using assms(3) by simp
  show "sample = map reviews_text
           (take 5 (filter (\<lambda>r. cluster_name r = Some c \<and> isin (name r) tops) df))"
    using assms(3) by (simp add: top_reviews_of_table take_map)
  let ?w1 = "show_on w (Subheader (''Category: '' @ c))"
  obtain res s where cr: "create (service ?w1) (article_request c tops bottom (join '' '' sample))
                            = (res, s)"
    by (cases "create (service ?w1) (article_request c tops bottom (join '' '' sample))")
  show "requests (snd (category_loop avg create df [Some c] w))
           = requests w @ [article_request c tops bottom (join '' '' sample)]"
    using assms generate_article_world
      [of create ?w1 c tops bottom "join '' '' sample" res s, OF cr]
    by (cases res) (simp_all add: Let_def str_category_def show_on_def)
qed

lemma demo_four_reviews:
  "map (\<lambda>r. (reviews_text r, name r, cluster_name r)) (calculate_average_scores demo_four)
     = [(''d1'', Some ''D'', Some ''tablets''), (''b1'', Some ''B'', Some ''tablets''),
        (''a1'', Some ''A'', Some ''tablets''), (''c1'', Some ''C'', Some ''tablets''),
        (''b2'', Some ''B'', Some ''tablets''), (''d2'', Some ''D'', Some ''tablets''),
        (''a2'', Some ''A'', Some ''tablets''), (''c2'', Some ''C'', Some ''tablets'')]"
  by (simp add: calculate_average_scores_rows demo_four_def avg_row_def row_key_def
      with_avg_def)

lemma demo_four_sample:
  "take 5 (top_reviews (category_df (calculate_average_scores demo_four) (Some ''tablets''))
      [''A'', ''B'', ''C''])
     = [''b1'', ''a1'', ''c1'', ''b2'', ''a2'']"
proof -
  have "take 5 (top_reviews (category_df (calculate_average_scores demo_four) (Some ''tablets''))
      [''A'', ''B'', ''C''])
     = take 5 (map fst (filter (\<lambda>(t, n, c). c = Some ''tablets'' \<and> isin n [''A'', ''B'', ''C''])
         (map (\<lambda>r. (reviews_text r, name r, cluster_name r)) (calculate_average_scores demo_four))))"
    by (simp add: top_reviews_of_table filter_map comp_def split_def)
  also have "\<dots> = [''b1'', ''a1'', ''c1'', ''b2'', ''a2'']"
    by (simp add: demo_four_reviews isin_def)
  finally show ?thesis .
qed

theorem sample_reviews_first_five_witness:
  "requests (snd (category_loop mean demo_create (calculate_average_scores demo_four)
       [Some ''tablets''] demo_world))
     = requests demo_world
       @ [article_request ''tablets'' [''A'', ''B'', ''C''] ''D''
            (join '' '' [''b1'', ''a1'', ''c1'', ''b2'', ''a2''])]"
proof -
  have tops: "[''A'', ''B'', ''C'']
      = top_products (product_sentiments mean
          (category_df (calculate_average_scores demo_four) (Some ''tablets'')))"
    by (simp only: demo_four_selection)
  have sample: "[''b1'', ''a1'', ''c1'', ''b2'', ''a2'']
      = take 5 (top_reviews (category_df (calculate_average_scores demo_four) (Some ''tablets''))
          [''A'', ''B'', ''C''])"
    by (simp only: demo_four_sample)
  from sample_reviews_first_five [OF tops demo_four_selection(2) sample, of demo_create demo_world]
  show ?thesis
    by blast
qed

text \<open>
  C9. Let the loop have passed the categories \<open>pre\<close>, and let the service refuse the
  request for the next category with the error \<open>e\<close>. Then the loop ends with \<open>e\<close> at
  that category: the request that failed is the last one sent, sent once, nothing is sent
  or shown for the categories after it, and the run shows \<open>e\<close> on the page right after
  the heading of the failing category.
\<close>

theorem generation_error_aborts:
  assumes classified: "process_reviews transform predict (\<lambda>a. Raw rows) 0 = (Inr a, h)"
    and df: "df = calculate_average_scores (scored_rows (h a))"
    and cats: "unique (map cluster_name df) = pre @ category # post"
    and pre: "category_loop avg create df pre w = (Inr (), w1)"
    and tops: "tops = top_products (product_sentiments avg (category_df df category))"
    and bottom: "bottom_product (product_sentiments avg (category_df df category)) = Inr bottom"
    and req: "req = article_request (str_category category) tops bottom
                      (join '' '' (take 5 (top_reviews (category_df df category) tops)))"
    and fail: "create (service w1) req = (Inl e, s)"
  shows "category_loop avg create df (pre @ category # post) w
           = (Inl e, \<lparr>display = display w1 @ [Subheader (''Category: '' @ str_category category)],
                      requests = requests w1 @ [req], service = s\<rparr>)
       \<and> run transform predict avg create rows w
           = \<lparr>display = display w1 @ [Subheader (''Category: '' @ str_category category), StError e],
              requests = requests w1 @ [req], service = s\<rparr>"
proof -
  let ?w1 = "show_on w1 (Subheader (''Category: '' @ str_category category))"
  have "create (service ?w1) (article_request (str_category category) tops bottom
            (join '' '' (take 5 (top_reviews (category_df df category) tops)))) = (Inl e, s)"
    using fail by (simp add: show_on_def req)
  from generate_article_world [of create ?w1 "str_category category" tops bottom
      "join '' '' (take 5 (top_reviews (category_df df category) tops))" "Inl e" s, OF this]
  have gen: "generate_article create ?w1 (str_category category) tops bottom
               (join '' '' (take 5 (top_reviews (category_df df category) tops)))
             = (Inl e, ?w1\<lparr>requests := requests ?w1 @ [req], service := s\<rparr>)"
    by (simp add: req)
  have step: "category_loop avg create df (category # post) w1
                = (Inl e, ?w1\<lparr>requests := requests ?w1 @ [req], service := s\<rparr>)"
    using bottom gen by (simp add: Let_def tops [symmetric])
  have loop: "category_loop avg create df (pre @ category # post) w
           = (Inl e, \<lparr>display = display w1 @ [Subheader (''Category: '' @ str_category category)],
                      requests = requests w1 @ [req], service = s\<rparr>)"
  proof -
    have "category_loop avg create df (pre @ category # post) w
            = category_loop avg create df (category # post) w1"
      by (simp only: category_loop_append pre prod.case sum.case)
    also note step
    finally show ?thesis
      by (simp add: show_on_def)
  qed
  have "pipeline transform predict avg create rows w
           = (Inl e, \<lparr>display = display w1 @ [Subheader (''Category: '' @ str_category category)],
                      requests = requests w1 @ [req], service = s\<rparr>)"
    using classified loop by (simp add: pipeline_def Let_def df [symmetric] cats)
  then have "run transform predict avg create rows w
           = \<lparr>display = display w1 @ [Subheader (''Category: '' @ str_category category), StError e],
              requests = requests w1 @ [req], service = s\<rparr>"
    by (simp add: run_def show_on_def)
  with loop show ?thesis
    by simp
qed

lemma demo_three_classified:
  "process_reviews demo_transform demo_predict (\<lambda>a. Raw demo_three) 0
     = (Inr 0, (\<lambda>a. Raw demo_three)(0 := Scored demo_three_scored))"
  by (simp add: process_reviews_def demo_transform_def demo_predict_def demo_three_def
      base_rows_def demo_label_def set_sentiment_def with_sentiment_def with_score_def
      score_dict_cases demo_three_scored_def)

lemma demo_three_averaged:
  "calculate_average_scores demo_three_scored
     = [\<lparr>reviews_text = ''good'', name = Some ''A'', cluster_name = Some ''tablets'',
         sentiment = ''positive'', sentiment_score = Some 2, sentiment_score_avg = Some 2\<rparr>,
        \<lparr>reviews_text = ''bad'', name = Some ''B'', cluster_name = Some ''phones'',
         sentiment = ''negative'', sentiment_score = Some 0, sentiment_score_avg = Some 0\<rparr>,
        \<lparr>reviews_text = ''ok'', name = Some ''C'', cluster_name = Some ''laptops'',
         sentiment = ''neutral'', sentiment_score = Some 1, sentiment_score_avg = Some 1\<rparr>]"
  by (simp add: calculate_average_scores_rows demo_three_scored_def avg_row_def row_key_def
      group_rows_def mean_def score_value_def List.map_filter_simps with_avg_def)

lemma demo_three_selection:
  "product_sentiments mean (category_df (calculate_average_scores demo_three_scored) (Some ''tablets''))
     = [(''A'', Some 2)]"
  "product_sentiments mean (category_df (calculate_average_scores demo_three_scored) (Some ''phones''))
     = [(''B'', Some 0)]"
  by (simp_all add: demo_three_averaged product_sentiments_def category_df_def mean_def
      List.map_filter_simps)

lemma single_selection:
  "top_products [(n, m)] = [n]" "bottom_product [(n, m)] = Inr n"
  by (simp_all add: top_products_def bottom_product_def nlargest_def nsmallest_def
      sort_values_single)

lemma strip_demo: "strip '' An article. '' = ''An article.''"
  by (simp add: strip_def lstrip_by.simps whitespace_def starts_with_def)

lemma category_loop_step:
  assumes tops: "tops = top_products (product_sentiments avg (category_df df category))"
    and bottom: "bottom_product (product_sentiments avg (category_df df category)) = Inr bottom"
    and req: "req = article_request (str_category category) tops bottom
                      (join '' '' (take 5 (top_reviews (category_df df category) tops)))"
    and ok: "create (service w) req = (Inr text, s)"
  shows "category_loop avg create df (category # rest) w
           = category_loop avg create df rest
               \<lparr>display = display w @ [Subheader (''Category: '' @ str_category category),
                                         Write (strip text), Markdown ''---''],
                requests = requests w @ [req], service = s\<rparr>"
proof -
  let ?w1 = "show_on w (Subheader (''Category: '' @ str_category category))"
  have "create (service ?w1) (article_request (str_category category) tops bottom
            (join '' '' (take 5 (top_reviews (category_df df category) tops)))) = (Inr text, s)"
    using ok by (simp add: show_on_def req)
  from generate_article_world [of create ?w1 "str_category category" tops bottom
      "join '' '' (take 5 (top_reviews (category_df df category) tops))" "Inr text" s, OF this]
  have gen: "generate_article create ?w1 (str_category category) tops bottom
               (join '' '' (take 5 (top_reviews (category_df df category) tops)))
             = (Inr (strip text), ?w1\<lparr>requests := requests ?w1 @ [req], service := s\<rparr>)"
    by (simp add: req)
  have "category_loop avg create df (category # rest) w
          = category_loop avg create df rest
              (show_on (show_on (?w1\<lparr>requests := requests ?w1 @ [req], service := s\<rparr>)
                 (Write (strip text))) (Markdown ''---''))"
    using bottom gen by (simp add: Let_def tops [symmetric])
  also have "show_on (show_on (?w1\<lparr>requests := requests ?w1 @ [req], service := s\<rparr>)
                 (Write (strip text))) (Markdown ''---'')
      = \<lparr>display = display w @ [Subheader (''Category: '' @ str_category category),
                                         Write (strip text), Markdown ''---''],
                requests = requests w @ [req], service = s\<rparr>"
    by (simp add: show_on_def)
  finally show ?thesis .
qed

theorem generation_error_aborts_witness:
  "run demo_transform demo_predict mean demo_create demo_three demo_world
     = \<lparr>display = [Subheader ''Category: tablets'', Write ''An article.'', Markdown ''---'',
                   Subheader ''Category: phones'', StError (ExternalError ''rate limit'')],
        requests = [article_request ''tablets'' [''A''] ''A'' ''good'',
                    article_request ''phones'' [''B''] ''B'' ''bad''],
        service = 2\<rparr>"
proof -
  let ?df = "calculate_average_scores demo_three_scored"
  let ?w1 = "\<lparr>display = [Subheader ''Category: tablets'', Write ''An article.'', Markdown ''---''],
              requests = [article_request ''tablets'' [''A''] ''A'' ''good''],
              service = Suc 0\<rparr>"
  have df: "?df = calculate_average_scores
      (scored_rows (((\<lambda>a. Raw demo_three)(0 := Scored demo_three_scored)) 0))"
    by (simp add: scored_rows_def)
  have cats: "unique (map cluster_name ?df) = [Some ''tablets''] @ Some ''phones'' # [Some ''laptops'']"
    by (simp add: demo_three_averaged)
  have tops1: "[''A''] = top_products (product_sentiments mean (category_df ?df (Some ''tablets'')))"
    by (simp add: demo_three_selection(1) single_selection)
  have bottom1: "bottom_product (product_sentiments mean (category_df ?df (Some ''tablets''))) = Inr ''A''"
    by (simp add: demo_three_selection(1) single_selection)
  have req1: "article_request ''tablets'' [''A''] ''A'' ''good''
      = article_request (str_category (Some ''tablets'')) [''A''] ''A''
          (join '' '' (take 5 (top_reviews (category_df ?df (Some ''tablets'')) [''A''])))"
    by (simp add: str_category_def top_reviews_def category_df_def demo_three_averaged isin_def)
  have ok1: "demo_create (service demo_world) (article_request ''tablets'' [''A''] ''A'' ''good'')
      = (Inr '' An article. '', Suc 0)"
    by (simp add: demo_create_def demo_world_def)
  note category_loop_step [where create = demo_create and rest = "[]",
      OF tops1 bottom1 req1 ok1]
  also have "category_loop mean demo_create ?df []
      \<lparr>display = display demo_world @ [Subheader (''Category: '' @ str_category (Some ''tablets'')),
                   Write (strip '' An article. ''), Markdown ''---''],
        requests = requests demo_world @ [article_request ''tablets'' [''A''] ''A'' ''good''],
        service = Suc 0\<rparr> = (Inr (), ?w1)"
    by (simp add: strip_demo demo_world_def str_category_def)
  finally have pre: "category_loop mean demo_create ?df [Some ''tablets''] demo_world = (Inr (), ?w1)" .
  have tops: "[''B''] = top_products (product_sentiments mean (category_df ?df (Some ''phones'')))"
    by (simp add: demo_three_selection(2) single_selection)
  have bottom: "bottom_product (product_sentiments mean (category_df ?df (Some ''phones''))) = Inr ''B''"
    by (simp add: demo_three_selection(2) single_selection)
  have req: "article_request ''phones'' [''B''] ''B'' ''bad''
      = article_request (str_category (Some ''phones'')) [''B''] ''B''
          (join '' '' (take 5 (top_reviews (category_df ?df (Some ''phones'')) [''B''])))"
    by (simp add: str_category_def top_reviews_def category_df_def demo_three_averaged isin_def)
  have fail: "demo_create (service ?w1) (article_request ''phones'' [''B''] ''B'' ''bad'')
      = (Inl (ExternalError ''rate limit''), 2)"
    by (simp add: demo_create_def)
  from generation_error_aborts [where create = demo_create,
      OF demo_three_classified df cats pre tops bottom req fail]
  show ?thesis
    by (simp add: str_category_def)
qed


end
